theory Spec2Isabelle
  imports Main "HOL-Library.Word"
begin

section \<open>The rendezvous-point command (go/cmd/rdvp/main.go)\<close>

text \<open>
  The file embeds the functions of \<^verbatim>\<open>main.go\<close>: \<^verbatim>\<open>parseBoolFromEnv\<close>,
  \<^verbatim>\<open>newLogger\<close>, \<^verbatim>\<open>parseAddrs\<close>, the identity block and the final wait of
  \<^verbatim>\<open>serve.Exec\<close>, \<^verbatim>\<open>genkey.Exec\<close> and the exit decision of \<^verbatim>\<open>main\<close>.
  Functions of Go's standard library are written out (\<^verbatim>\<open>strconv.ParseBool\<close>,
  \<^verbatim>\<open>os.Getenv\<close>, \<^verbatim>\<open>strings.Split\<close>, \<^verbatim>\<open>net.SplitHostPort\<close>,
  \<^verbatim>\<open>encoding/base64\<close>). Functions of third-party packages (go-multiaddr,
  go-libp2p-core/crypto, zap) are parameters of the functions that call them, so that a
  theorem holds for whatever those packages compute; an instance of each is given to run
  the functions on concrete inputs.
\<close>

subsection \<open>Error values\<close>

type_synonym byte = "8 word"

datatype os_Signal = Interrupt

text \<open>
  Modelled from the spec: package \<^verbatim>\<open>errcode\<close> of the repository is not among the sources.
  Section 7 of the specification says that a failure is "wrapped with a stable categorical
  tag and returned to the caller" and names the categories \<^verbatim>\<open>DecodeError\<close>,
  \<^verbatim>\<open>KeyFormatError\<close>, \<^verbatim>\<open>KeyGenError\<close> and \<^verbatim>\<open>AddressParseError\<close>; the one code
  that \<^verbatim>\<open>main.go\<close> uses is \<^verbatim>\<open>errcode.TODO\<close>. \<^verbatim>\<open>code.Wrap(err)\<close> is the
  constructor \<open>Wrapped code err\<close> of the errors below: a new error value that holds the
  code and the cause.
\<close>

datatype ErrCode = TODO | DecodeError | KeyFormatError | KeyGenError | AddressParseError

text \<open>
  Go's \<^verbatim>\<open>error\<close> values that reach this program: \<^verbatim>\<open>base64.CorruptInputError\<close> (an offset),
  \<^verbatim>\<open>*net.AddrError\<close> (reason and address), \<^verbatim>\<open>*strconv.NumError\<close> (function and input),
  \<^verbatim>\<open>context.Canceled\<close>, \<^verbatim>\<open>flag.ErrHelp\<close>, \<^verbatim>\<open>run.SignalError\<close>, a parse error of
  go-multiaddr (the address and the reason), any other error of a third-party package (its
  message), and an error wrapped with a code.
\<close>

datatype error =
    CorruptInputError nat
  | AddrError string string
  | NumError string string
  | Canceled
  | ErrHelp
  | SignalError os_Signal
  | MultiaddrError string string
  | External string
  | Wrapped ErrCode error

fun code_of :: "error \<Rightarrow> ErrCode option" where
  "code_of (Wrapped c _) = Some c"
| "code_of _ = None"

subsection \<open>parseBoolFromEnv (main.go, lines 233-236)\<close>

text \<open>
  \<^verbatim>\<open>os.Getenv\<close>: the value of the variable, the empty string when it is not set.
\<close>

type_synonym environ = "string \<rightharpoonup> string"

definition Getenv :: "environ \<Rightarrow> string \<Rightarrow> string" where
  "Getenv env key = (case env key of None \<Rightarrow> [] | Some v \<Rightarrow> v)"

text \<open>
  \<^verbatim>\<open>strconv.ParseBool\<close> returns both a value and an error: the two \<^verbatim>\<open>switch\<close> cases
  of the standard library, and \<^verbatim>\<open>false\<close> with a syntax error for every other string.
\<close>

definition ParseBool :: "string \<Rightarrow> bool \<times> error option" where
  "ParseBool str =
     (if str \<in> set [''1'', ''t'', ''T'', ''true'', ''TRUE'', ''True''] then (True, None)
      else if str \<in> set [''0'', ''f'', ''F'', ''false'', ''FALSE'', ''False''] then (False, None)
      else (False, Some (NumError ''ParseBool'' str)))"

text \<open>\<^verbatim>\<open>b, _ = strconv.ParseBool(os.Getenv(key))\<close>: the error is dropped.\<close>

definition parseBoolFromEnv :: "environ \<Rightarrow> string \<Rightarrow> bool" where
  "parseBoolFromEnv env key = fst (ParseBool (Getenv env key))"

subsection \<open>newLogger (main.go, lines 238-278)\<close>










subsection \<open>strings.Split and the default of the \<^verbatim>\<open>-l\<close> flag (main.go, lines 50 and 80)\<close>

text \<open>
  \<^verbatim>\<open>strings.Split(s, ",")\<close>, for a separator of one byte: the pieces between the
  separators, in order; a string without separator (the empty one too) is one piece.
\<close>

fun Split :: "string \<Rightarrow> char \<Rightarrow> string list" where
  "Split [] sep = [[]]"
| "Split (c # s) sep =
     (if c = sep then [] # Split s sep
      else (case Split s sep of [] \<Rightarrow> [[c]] | piece # pieces \<Rightarrow> (c # piece) # pieces))"

definition serveFlagsListeners_default :: string where
  "serveFlagsListeners_default = ''/ip4/0.0.0.0/tcp/4040,/ip4/0.0.0.0/udp/4141/quic''"

definition serveFlagsPK_default :: string where
  "serveFlagsPK_default = []"

subsection \<open>net.SplitHostPort\<close>

fun IndexByte :: "string \<Rightarrow> char \<Rightarrow> nat option" where
  "IndexByte [] c = None"
| "IndexByte (x # xs) c = (if x = c then Some 0 else map_option Suc (IndexByte xs c))"

text \<open>\<^verbatim>\<open>last(s, b)\<close> of package net: the index of the last occurrence.\<close>

fun last_index :: "string \<Rightarrow> char \<Rightarrow> nat option" where
  "last_index [] c = None"
| "last_index (x # xs) c =
     (case last_index xs c of
        Some i \<Rightarrow> Some (Suc i)
      | None \<Rightarrow> if x = c then Some 0 else None)"

definition missingPort :: string where
  "missingPort = ''missing port in address''"

definition tooManyColons :: string where
  "tooManyColons = ''too many colons in address''"

text \<open>
  The last two tests of \<^verbatim>\<open>SplitHostPort\<close>: no \<^verbatim>\<open>[\<close> from position \<open>j\<close> on, no
  \<^verbatim>\<open>]\<close> from position \<open>k\<close> on; then the port is what follows the last colon, at \<open>i\<close>.
\<close>

definition split_brackets ::
  "string \<Rightarrow> string \<Rightarrow> nat \<Rightarrow> nat \<Rightarrow> nat \<Rightarrow> error + string \<times> string" where
  "split_brackets hostport host j k i =
     (if IndexByte (drop j hostport) (CHR ''['') \<noteq> None
        then Inl (AddrError ''unexpected '[' in address'' hostport)
      else if IndexByte (drop k hostport) (CHR '']'') \<noteq> None
        then Inl (AddrError ''unexpected ']' in address'' hostport)
      else Inr (host, drop (i + 1) hostport))"

definition SplitHostPort :: "string \<Rightarrow> error + string \<times> string" where
  "SplitHostPort hostport =
     (case last_index hostport (CHR '':'') of
        None \<Rightarrow> Inl (AddrError missingPort hostport)
      | Some i \<Rightarrow>
          if hd hostport = CHR ''['' then
            (case IndexByte hostport (CHR '']'') of
               None \<Rightarrow> Inl (AddrError ''missing ']' in address'' hostport)
             | Some end \<Rightarrow>
                 if end + 1 = length hostport then Inl (AddrError missingPort hostport)
                 else if end + 1 = i
                   then split_brackets hostport (take (end - 1) (drop 1 hostport)) 1 (end + 1) i
                 else if hostport ! (end + 1) = CHR '':''
                   then Inl (AddrError tooManyColons hostport)
                 else Inl (AddrError missingPort hostport))
          else
            (let host = take i hostport in
             if IndexByte host (CHR '':'') \<noteq> None then Inl (AddrError tooManyColons hostport)
             else split_brackets hostport host 0 0 i))"

subsection \<open>parseAddrs (main.go, lines 209-231)\<close>

text \<open>\<^verbatim>\<open>fmt.Sprintf("/ip4/%s/tcp/%s/", host, port)\<close>.\<close>

definition Sprintf_ip4_tcp :: "string \<Rightarrow> string \<Rightarrow> string" where
  "Sprintf_ip4_tcp host port = ''/ip4/'' @ host @ ''/tcp/'' @ port @ ''/''"

text \<open>
  The loop of \<^verbatim>\<open>parseAddrs\<close>, from index \<open>i\<close> on, over the named results
  \<open>maddrs\<close> and \<open>err\<close>. \<open>NewMultiaddr\<close> stands for \<^verbatim>\<open>ma.NewMultiaddr\<close>, which returns
  either an address or \<^verbatim>\<open>nil\<close> and an error; a \<^verbatim>\<open>nil\<close> entry of the slice is \<open>None\<close>.
  Each assignment \<^verbatim>\<open>maddrs[i], err = ma.NewMultiaddr(addr)\<close> overwrites both results; the
  only \<^verbatim>\<open>return\<close> inside the loop is the one after a failed \<^verbatim>\<open>net.SplitHostPort\<close>.
\<close>

fun parseAddrs_loop ::
  "(string \<Rightarrow> error + 'm) \<Rightarrow> nat \<Rightarrow> string list \<Rightarrow> 'm option list \<Rightarrow> error option
     \<Rightarrow> 'm option list \<times> error option" where
  "parseAddrs_loop NewMultiaddr i [] maddrs err = (maddrs, err)"
| "parseAddrs_loop NewMultiaddr i (addr # addrs) maddrs err =
     (case NewMultiaddr addr of
        Inr m \<Rightarrow> parseAddrs_loop NewMultiaddr (Suc i) addrs (maddrs[i := Some m]) None
      | Inl err1 \<Rightarrow>
          (case SplitHostPort addr of
             Inl serr \<Rightarrow> (maddrs[i := None], Some err1)
           | Inr (host, port) \<Rightarrow>
               (let host = (if host = [] then ''127.0.0.1'' else host);
                    addr = Sprintf_ip4_tcp host port
                in case NewMultiaddr addr of
                     Inr m \<Rightarrow>
                       parseAddrs_loop NewMultiaddr (Suc i) addrs (maddrs[i := Some m]) None
                   | Inl err2 \<Rightarrow>
                       parseAddrs_loop NewMultiaddr (Suc i) addrs (maddrs[i := None]) (Some err2))))"

text \<open>\<^verbatim>\<open>maddrs = make([]ma.Multiaddr, len(addrs))\<close>, then the loop, then \<^verbatim>\<open>return\<close>.\<close>

definition parseAddrs :: "(string \<Rightarrow> error + 'm) \<Rightarrow> string list \<Rightarrow> 'm option list \<times> error option" where
  "parseAddrs NewMultiaddr addrs =
     parseAddrs_loop NewMultiaddr 0 addrs (replicate (length addrs) None) None"

text \<open>
  Lines 80-84 of \<^verbatim>\<open>serve.Exec\<close>: the flag is split at the commas and resolved; the
  command stops when \<open>err\<close> is set and uses the slice otherwise.
\<close>

definition serve_listeners :: "(string \<Rightarrow> error + 'm) \<Rightarrow> string \<Rightarrow> error + 'm option list" where
  "serve_listeners NewMultiaddr serveFlagsListeners =
     (case parseAddrs NewMultiaddr (Split serveFlagsListeners (CHR '','')) of
        (listeners, Some err) \<Rightarrow> Inl (Wrapped TODO err)
      | (listeners, None) \<Rightarrow> Inr listeners)"

subsection \<open>The resolver of the specification (section 4.3)\<close>

text \<open>
  The specification's words for one address: "attempt (1) direct parse as a structured
  multi-segment network address; on failure, (2) fallback parse as a bare host:port pair,
  defaulting an empty host to the loopback address 127.0.0.1, and re-render it into the
  structured TCP-over-IPv4 form before parsing again"; when the text is no host:port pair
  either, the error is the one of the direct parse.
\<close>

definition resolve_spec :: "(string \<Rightarrow> error + 'm) \<Rightarrow> string \<Rightarrow> error + 'm" where
  "resolve_spec NewMultiaddr addr =
     (case NewMultiaddr addr of
        Inr m \<Rightarrow> Inr m
      | Inl err \<Rightarrow>
          (case SplitHostPort addr of
             Inl serr \<Rightarrow> Inl err
           | Inr (host, port) \<Rightarrow>
               NewMultiaddr (Sprintf_ip4_tcp (if host = [] then ''127.0.0.1'' else host) port)))"

text \<open>
  The specification's words for the list: "If both attempts fail, the whole call fails
  [...]; partial successes are discarded (all-or-nothing [...]). Output order matches
  input order."
\<close>

fun resolveAll_spec :: "(string \<Rightarrow> error + 'm) \<Rightarrow> string list \<Rightarrow> error + 'm list" where
  "resolveAll_spec NewMultiaddr [] = Inr []"
| "resolveAll_spec NewMultiaddr (addr # addrs) =
     (case resolve_spec NewMultiaddr addr of
        Inl err \<Rightarrow> Inl err
      | Inr m \<Rightarrow>
          (case resolveAll_spec NewMultiaddr addrs of
             Inl err \<Rightarrow> Inl err
           | Inr ms \<Rightarrow> Inr (m # ms)))"

text \<open>
  The two results of one call of the parser, as Go returns them: the address or
  \<^verbatim>\<open>nil\<close>, and the error or \<^verbatim>\<open>nil\<close>.
\<close>

definition entry_of :: "error + 'm \<Rightarrow> 'm option" where
  "entry_of r = (case r of Inl err \<Rightarrow> None | Inr m \<Rightarrow> Some m)"

definition error_of :: "error + 'm \<Rightarrow> error option" where
  "error_of r = (case r of Inl err \<Rightarrow> Some err | Inr m \<Rightarrow> None)"

text \<open>
  The addresses at which the loop of \<open>parseAddrs\<close> returns: the direct parse fails and
  the text is no host:port pair.
\<close>

definition returns_early :: "(string \<Rightarrow> error + 'm) \<Rightarrow> string \<Rightarrow> bool" where
  "returns_early NewMultiaddr addr \<longleftrightarrow> isl (NewMultiaddr addr) \<and> isl (SplitHostPort addr)"

subsection \<open>An instance of ma.NewMultiaddr: the four protocols of the default listeners\<close>

text \<open>
  go-multiaddr is a third-party package and \<open>parseAddrs\<close> takes its parser as a parameter.
  To run \<open>parseAddrs\<close> on concrete addresses, this is the text parser of the package
  restricted to the protocols \<^verbatim>\<open>ip4\<close>, \<^verbatim>\<open>tcp\<close>, \<^verbatim>\<open>udp\<close> and \<^verbatim>\<open>quic\<close>, and
  to IPv4 addresses written as four decimal fields: trailing slashes are trimmed, the text
  is split at the slashes, the first piece must be empty, and each protocol name is followed
  by its value (\<^verbatim>\<open>quic\<close> has none). An address is the list of its components.
\<close>

datatype Component = ip4 byte byte byte byte | tcp "16 word" | udp "16 word" | quic

datatype Protocol = P_ip4 | P_tcp | P_udp | P_quic

definition ProtocolWithName :: "string \<Rightarrow> Protocol option" where
  "ProtocolWithName name =
     (if name = ''ip4'' then Some P_ip4
      else if name = ''tcp'' then Some P_tcp
      else if name = ''udp'' then Some P_udp
      else if name = ''quic'' then Some P_quic
      else None)"

definition digit :: "char \<Rightarrow> nat option" where
  "digit c = (if 48 \<le> (of_char c :: nat) \<and> (of_char c :: nat) \<le> 57
              then Some (of_char c - 48) else None)"

fun digits :: "nat \<Rightarrow> string \<Rightarrow> nat option" where
  "digits n [] = Some n"
| "digits n (c # s) = (case digit c of None \<Rightarrow> None | Some d \<Rightarrow> digits (n * 10 + d) s)"

text \<open>
  \<^verbatim>\<open>strconv.Atoi\<close>: an optional sign, at least one decimal digit and nothing else, and a
  value that fits 64 bits.
\<close>

definition Atoi :: "string \<Rightarrow> error + int" where
  "Atoi s =
     (let negative = (s \<noteq> [] \<and> hd s = CHR ''-'');
          body = (if s \<noteq> [] \<and> (hd s = CHR ''-'' \<or> hd s = CHR ''+'') then tl s else s)
      in if body = [] then Inl (NumError ''Atoi'' s)
         else (case digits 0 body of
                 None \<Rightarrow> Inl (NumError ''Atoi'' s)
               | Some n \<Rightarrow>
                   (let v = (if negative then - int n else int n)
                    in if v < - (2 ^ 63) \<or> 2 ^ 63 \<le> v then Inl (NumError ''Atoi'' s)
                       else Inr v)))"

text \<open>The port transcoder: \<^verbatim>\<open>Atoi\<close>, a bound of 65536, then the cast to 16 bits.\<close>

definition port16 :: "string \<Rightarrow> string + 16 word" where
  "port16 s =
     (case Atoi s of
        Inl err \<Rightarrow> Inl ''failed to parse port addr''
      | Inr i \<Rightarrow> if 65536 \<le> i then Inl ''failed to parse port addr: greater than 65536''
                 else Inr (word_of_int i))"

text \<open>
  The address transcoder: four decimal fields of at most 255, separated by dots (a field
  may begin with zeros, as in the Go releases of the time).
\<close>

definition octet :: "string \<Rightarrow> byte option" where
  "octet s =
     (if s = [] then None
      else (case digits 0 s of
              None \<Rightarrow> None
            | Some n \<Rightarrow> if 255 < n then None else Some (of_nat n)))"

definition parseIPv4 :: "string \<Rightarrow> string + Component" where
  "parseIPv4 s =
     (case map octet (Split s (CHR ''.'')) of
        [Some a, Some b, Some c, Some d] \<Rightarrow> Inr (ip4 a b c d)
      | _ \<Rightarrow> Inl ''failed to parse ip4 addr'')"

definition transcode :: "Protocol \<Rightarrow> string \<Rightarrow> string + Component" where
  "transcode p v =
     (case p of
        P_ip4 \<Rightarrow> parseIPv4 v
      | P_tcp \<Rightarrow> map_sum id tcp (port16 v)
      | P_udp \<Rightarrow> map_sum id udp (port16 v)
      | P_quic \<Rightarrow> Inr quic)"

fun stringToComponents :: "string \<Rightarrow> string list \<Rightarrow> error + Component list" where
  "stringToComponents s [] = Inr []"
| "stringToComponents s (name # sp) =
     (case ProtocolWithName name of
        None \<Rightarrow> Inl (MultiaddrError s (''unknown protocol '' @ name))
      | Some P_quic \<Rightarrow>
          (case stringToComponents s sp of Inl err \<Rightarrow> Inl err | Inr cs \<Rightarrow> Inr (quic # cs))
      | Some p \<Rightarrow>
          (case sp of
             [] \<Rightarrow> Inl (MultiaddrError s ''unexpected end of multiaddr'')
           | v # sp' \<Rightarrow>
               (case transcode p v of
                  Inl why \<Rightarrow> Inl (MultiaddrError s (''invalid value for protocol '' @ name @ '': '' @ why))
                | Inr c \<Rightarrow>
                    (case stringToComponents s sp' of
                       Inl err \<Rightarrow> Inl err
                     | Inr cs \<Rightarrow> Inr (c # cs)))))"

definition TrimRight :: "string \<Rightarrow> char \<Rightarrow> string" where
  "TrimRight s c = rev (dropWhile (\<lambda>x. x = c) (rev s))"

definition ma_NewMultiaddr :: "string \<Rightarrow> error + Component list" where
  "ma_NewMultiaddr s0 =
     (let s = TrimRight s0 (CHR ''/'');
          sp = Split s (CHR ''/'')
      in if hd sp \<noteq> [] then Inl (MultiaddrError s ''must begin with /'')
         else if tl sp = [] then Inl (MultiaddrError s ''empty multiaddr'')
         else stringToComponents s (tl sp))"

subsection \<open>encoding/base64: StdEncoding\<close>

definition encodeStd :: string where
  "encodeStd = ''ABCDEFGHIJKLMNOPQRSTUVWXYZabcdefghijklmnopqrstuvwxyz0123456789+/''"

text \<open>
  \<^verbatim>\<open>Encode\<close>: three bytes give four characters of the alphabet; one or two remaining
  bytes give two or three characters and the padding \<^verbatim>\<open>=\<close>. The shifts and masks of
  the 24-bit value are written as divisions by powers of two.
\<close>

fun EncodeToString :: "byte list \<Rightarrow> string" where
  "EncodeToString (b0 # b1 # b2 # src) =
     (let val = unat b0 * 65536 + unat b1 * 256 + unat b2
      in encodeStd ! (val div 262144 mod 64) # encodeStd ! (val div 4096 mod 64) #
         encodeStd ! (val div 64 mod 64) # encodeStd ! (val mod 64) # EncodeToString src)"
| "EncodeToString [b0, b1] =
     (let val = unat b0 * 65536 + unat b1 * 256
      in [encodeStd ! (val div 262144 mod 64), encodeStd ! (val div 4096 mod 64),
          encodeStd ! (val div 64 mod 64), CHR ''=''])"
| "EncodeToString [b0] =
     (let val = unat b0 * 65536
      in [encodeStd ! (val div 262144 mod 64), encodeStd ! (val div 4096 mod 64),
          CHR ''='', CHR ''=''])"
| "EncodeToString [] = []"

text \<open>The decoding table: the position of a character in the alphabet, if it has one.\<close>

definition decodeMap :: "char \<Rightarrow> nat option" where
  "decodeMap c = map_of (zip encodeStd [0..<64]) c"

definition newline :: "char \<Rightarrow> bool" where
  "newline c = (c = CHR 0x0A \<or> c = CHR 0x0D)"

text \<open>
  The end of \<^verbatim>\<open>decodeQuantum\<close>: the \<open>dlen\<close> collected 6-bit values (the missing ones
  are zero) make a 24-bit value, of which the first \<open>dlen - 1\<close> bytes are written.
\<close>

definition quantum_bytes :: "nat list \<Rightarrow> byte list" where
  "quantum_bytes dbuf =
     (let d = dbuf @ replicate (4 - length dbuf) 0;
          val = d ! 0 * 262144 + d ! 1 * 4096 + d ! 2 * 64 + d ! 3
      in take (length dbuf - 1) [of_nat (val div 65536), of_nat (val div 256), of_nat val])"

text \<open>
  After the padding of a quantum: line ends are skipped, and anything else is trailing
  garbage, reported at its offset.
\<close>

definition trailing :: "nat list \<Rightarrow> nat \<Rightarrow> string \<Rightarrow> error + byte list" where
  "trailing dbuf si src =
     (if dropWhile newline src \<noteq> []
        then Inl (CorruptInputError (si + length (takeWhile newline src)))
      else Inr (quantum_bytes dbuf))"

text \<open>
  A \<^verbatim>\<open>=\<close> was read as character \<open>length dbuf\<close> of a quantum, and \<open>si\<close> is the offset
  after it: no padding may stand in the first two places, and in the third place a second
  \<^verbatim>\<open>=\<close> must follow.
\<close>

definition padding :: "nat list \<Rightarrow> nat \<Rightarrow> string \<Rightarrow> error + byte list" where
  "padding dbuf si src =
     (if length dbuf < 2 then Inl (CorruptInputError (si - 1))
      else if length dbuf = 2 then
        (let si' = si + length (takeWhile newline src);
             src' = dropWhile newline src
         in if src' = [] then Inl (CorruptInputError si')
            else if hd src' \<noteq> CHR ''='' then Inl (CorruptInputError (si' - 1))
            else trailing dbuf (si' + 1) (tl src'))
      else trailing dbuf si src)"

text \<open>
  \<^verbatim>\<open>Decode\<close> with \<^verbatim>\<open>decodeQuantum\<close>, as one recursion over the input: \<open>dbuf\<close> holds
  the values of the quantum being read and \<open>si\<close> is the offset of the next character. A
  line end is skipped, a character outside the alphabet is an error at its offset, and
  the input may end only between two quanta. Of the two results of \<^verbatim>\<open>DecodeString\<close>
  only the error is kept when there is one: the caller reads the bytes only without error.
\<close>

fun Decode :: "nat list \<Rightarrow> nat \<Rightarrow> string \<Rightarrow> error + byte list" where
  "Decode dbuf si [] =
     (if dbuf = [] then Inr [] else Inl (CorruptInputError (si - length dbuf)))"
| "Decode dbuf si (c # src) =
     (case decodeMap c of
        Some out \<Rightarrow>
          if length dbuf = 3 then
            (case Decode [] (si + 1) src of
               Inl err \<Rightarrow> Inl err
             | Inr bs \<Rightarrow> Inr (quantum_bytes (dbuf @ [out]) @ bs))
          else Decode (dbuf @ [out]) (si + 1) src
      | None \<Rightarrow>
          if newline c then Decode dbuf (si + 1) src
          else if c \<noteq> CHR ''='' then Inl (CorruptInputError si)
          else padding dbuf (si + 1) src)"

definition DecodeString :: "string \<Rightarrow> error + byte list" where
  "DecodeString s = Decode [] 0 s"

subsection \<open>The identity of the node (main.go, lines 86-102 and 145-161)\<close>

text \<open>
  The key functions of go-libp2p-core/crypto are parameters: \<open>UnmarshalPrivateKey\<close> and
  \<open>MarshalPrivateKey\<close> return a key, or bytes, or an error, and \<open>GenerateKeyPair\<close> is
  the outcome of \<^verbatim>\<open>GenerateKeyPairWithReader(RSA, 2048, crand.Reader)\<close> in this run.
  Each function below returns, with its result, the calls it made to the two packages, in
  order.
\<close>

datatype call =
    Call_DecodeString string
  | Call_UnmarshalPrivateKey "byte list"
  | Call_GenerateKeyPairWithReader

text \<open>Lines 89-96: the branch of a key given with \<^verbatim>\<open>-pk\<close>.\<close>

definition load_calls :: "(byte list \<Rightarrow> error + 'k) \<Rightarrow> string \<Rightarrow> call list \<times> (error + 'k)" where
  "load_calls UnmarshalPrivateKey serveFlagsPK =
     (case DecodeString serveFlagsPK of
        Inl err \<Rightarrow> ([Call_DecodeString serveFlagsPK], Inl (Wrapped TODO err))
      | Inr kBytes \<Rightarrow>
          (case UnmarshalPrivateKey kBytes of
             Inl err \<Rightarrow>
               ([Call_DecodeString serveFlagsPK, Call_UnmarshalPrivateKey kBytes],
                Inl (Wrapped TODO err))
           | Inr priv \<Rightarrow>
               ([Call_DecodeString serveFlagsPK, Call_UnmarshalPrivateKey kBytes], Inr priv)))"

definition load :: "(byte list \<Rightarrow> error + 'k) \<Rightarrow> string \<Rightarrow> error + 'k" where
  "load UnmarshalPrivateKey serveFlagsPK = snd (load_calls UnmarshalPrivateKey serveFlagsPK)"

text \<open>Lines 98-101: the branch without key.\<close>

definition generate_calls :: "error + 'k \<Rightarrow> call list \<times> (error + 'k)" where
  "generate_calls GenerateKeyPair =
     (case GenerateKeyPair of
        Inl err \<Rightarrow> ([Call_GenerateKeyPairWithReader], Inl (Wrapped TODO err))
      | Inr priv \<Rightarrow> ([Call_GenerateKeyPairWithReader], Inr priv))"

text \<open>Lines 87-102: \<^verbatim>\<open>if *serveFlagsPK != ""\<close>.\<close>

definition serve_identity ::
  "(byte list \<Rightarrow> error + 'k) \<Rightarrow> error + 'k \<Rightarrow> string \<Rightarrow> call list \<times> (error + 'k)" where
  "serve_identity UnmarshalPrivateKey GenerateKeyPair serveFlagsPK =
     (if serveFlagsPK \<noteq> [] then load_calls UnmarshalPrivateKey serveFlagsPK
      else generate_calls GenerateKeyPair)"



text \<open>
  An instance of the two key functions, to run the functions above: a Secp256k1 key is 32
  bytes, and its marshalled form is the protocol-buffer message of the package with the
  key type 2 in field 1 and the 32 bytes in field 2. Only this one layout is read back.
\<close>

datatype PrivKey = Secp256k1PrivateKey "byte list"

definition secp256k1_header :: "byte list" where
  "secp256k1_header = [0x08, 0x02, 0x12, 0x20]"


definition crypto_UnmarshalPrivateKey :: "byte list \<Rightarrow> error + PrivKey" where
  "crypto_UnmarshalPrivateKey kBytes =
     (if take 4 kBytes = secp256k1_header \<and> length kBytes = 36
        then Inr (Secp256k1PrivateKey (drop 4 kBytes))
      else Inl (External ''bad key''))"

subsection \<open>The end of serve.Exec and of main (main.go, lines 60-65, 137-141 and 174-184)\<close>

text \<open>
  Lines 137-141: \<^verbatim>\<open>serve.Exec\<close> waits for \<^verbatim>\<open>ctx.Done()\<close> and returns the error of
  the context, wrapped. \<open>ctx_Err\<close> is the value of \<^verbatim>\<open>ctx.Err()\<close>.
\<close>

definition serve_wait :: "error option \<Rightarrow> error option" where
  "serve_wait ctx_Err =
     (case ctx_Err of Some err \<Rightarrow> Some (Wrapped TODO err) | None \<Rightarrow> None)"

text \<open>
  The two actors of the group are the signal handler (lines 64-65) and the root command
  (lines 175-179). The actor of \<^verbatim>\<open>run.SignalHandler(ctx, os.Interrupt)\<close> (oklog/run)
  returns \<^verbatim>\<open>run.SignalError\<close> when the signal arrives, and the error of its context when
  that is cancelled first.
\<close>

datatype handler_event = Signal_received os_Signal | Context_done error

definition SignalHandler_execute :: "handler_event \<Rightarrow> error option" where
  "SignalHandler_execute ev =
     (case ev of Signal_received sig \<Rightarrow> Some (SignalError sig) | Context_done err \<Rightarrow> Some err)"

text \<open>
  \<^verbatim>\<open>process.Run()\<close> (oklog/run) returns what the first actor to return has returned,
  interrupts the others and drops their results. The argument lists the results of the
  actors in the order in which they return.
\<close>

definition Run :: "error option list \<Rightarrow> error option" where
  "Run returned = (case returned of [] \<Rightarrow> None | first # others \<Rightarrow> first)"

text \<open>
  Lines 182-184: \<^verbatim>\<open>log.Fatal(err)\<close> prints the error and leaves the process with status
  1; otherwise \<^verbatim>\<open>main\<close> returns and the status is 0. The comparison with
  \<^verbatim>\<open>context.Canceled\<close> is the equality of error values.
\<close>

datatype exit = Return | Fatal error

definition main_exit :: "error option \<Rightarrow> exit" where
  "main_exit process_Run =
     (case process_Run of
        None \<Rightarrow> Return
      | Some err \<Rightarrow> if err \<noteq> Canceled then Fatal err else Return)"

section \<open>Properties\<close>

subsection \<open>The debug switches\<close>

lemma ParseBool_fst:
  "fst (ParseBool str) = (str \<in> set [''1'', ''t'', ''T'', ''true'', ''TRUE'', ''True''])"
  by (simp add: ParseBool_def)

lemma ParseBool_error:
  "snd (ParseBool str) \<noteq> None \<Longrightarrow> fst (ParseBool str) = False"
  by (simp add: ParseBool_def split: if_splits)

lemma parseBoolFromEnv_iff:
  "parseBoolFromEnv env key =
     (Getenv env key \<in> set [''1'', ''t'', ''T'', ''true'', ''TRUE'', ''True''])"
  by (simp add: parseBoolFromEnv_def ParseBool_fst)

text \<open>
  Claim C10. \<open>parseBoolFromEnv\<close> is a total function of the environment and the key
  and never fails: it returns the parsed value when the variable holds a boolean text,
  and \<^verbatim>\<open>false\<close> when \<^verbatim>\<open>strconv.ParseBool\<close> reports an error, when the variable is
  not set and when it is empty. It is \<^verbatim>\<open>true\<close> exactly for the six texts that
  \<^verbatim>\<open>ParseBool\<close> reads as true.
\<close>

theorem parseBoolFromEnv_total:
  "(\<forall>b. ParseBool (Getenv env key) = (b, None) \<longrightarrow> parseBoolFromEnv env key = b)
   \<and> (snd (ParseBool (Getenv env key)) \<noteq> None \<longrightarrow> parseBoolFromEnv env key = False)
   \<and> (env key = None \<longrightarrow> parseBoolFromEnv env key = False)
   \<and> (env key = Some [] \<longrightarrow> parseBoolFromEnv env key = False)
   \<and> (parseBoolFromEnv env key
        \<longleftrightarrow> (\<exists>v. env key = Some v \<and> v \<in> set [''1'', ''t'', ''T'', ''true'', ''TRUE'', ''True'']))"
proof (intro conjI allI impI)
  fix b assume "ParseBool (Getenv env key) = (b, None)"
  then show "parseBoolFromEnv env key = b" by (simp add: parseBoolFromEnv_def)
next
  assume "snd (ParseBool (Getenv env key)) \<noteq> None"
  then show "parseBoolFromEnv env key = False"
    unfolding parseBoolFromEnv_def by (rule ParseBool_error)
next
  assume "env key = None"
  then show "parseBoolFromEnv env key = False"
    by (simp add: parseBoolFromEnv_iff Getenv_def)
next
  assume "env key = Some []"
  then show "parseBoolFromEnv env key = False"
    by (simp add: parseBoolFromEnv_iff Getenv_def)
next
  show "parseBoolFromEnv env key
        \<longleftrightarrow> (\<exists>v. env key = Some v \<and> v \<in> set [''1'', ''t'', ''T'', ''true'', ''TRUE'', ''True''])"
    by (cases "env key") (auto simp: parseBoolFromEnv_iff Getenv_def)
qed

text \<open>The switch set to \<^verbatim>\<open>true\<close>, to \<^verbatim>\<open>yes\<close>, to the empty text, and not set.\<close>

theorem parseBoolFromEnv_total_witness:
  "parseBoolFromEnv [''BERTY_DEBUG'' \<mapsto> ''true''] ''BERTY_DEBUG'' = True
   \<and> parseBoolFromEnv [''BERTY_DEBUG'' \<mapsto> ''yes''] ''BERTY_DEBUG'' = False
   \<and> parseBoolFromEnv [''BERTY_DEBUG'' \<mapsto> ''''] ''BERTY_DEBUG'' = False
   \<and> parseBoolFromEnv Map.empty ''BERTY_DEBUG'' = False"
  using parseBoolFromEnv_total [of "[''BERTY_DEBUG'' \<mapsto> ''true'']" "''BERTY_DEBUG''"]
    parseBoolFromEnv_total [of "[''BERTY_DEBUG'' \<mapsto> ''yes'']" "''BERTY_DEBUG''"]
    parseBoolFromEnv_total [of "[''BERTY_DEBUG'' \<mapsto> '''']" "''BERTY_DEBUG''"]
    parseBoolFromEnv_total [of "Map.empty" "''BERTY_DEBUG''"]
  by (simp add: ParseBool_def Getenv_def)





subsection \<open>The loop of parseAddrs\<close>

text \<open>
  One iteration either returns, or stores the entry of the specification's resolver and
  sets \<open>err\<close> to its error, whatever \<open>err\<close> was before.
\<close>

lemma loop_step:
  assumes "\<not> returns_early nm a"
  shows "parseAddrs_loop nm i (a # addrs) maddrs err =
           parseAddrs_loop nm (Suc i) addrs (maddrs[i := entry_of (resolve_spec nm a)])
             (error_of (resolve_spec nm a))"
  using assms
  by (auto simp: returns_early_def resolve_spec_def entry_of_def error_of_def Let_def
      split: sum.splits)

lemma loop_return:
  assumes "returns_early nm a"
  shows "parseAddrs_loop nm i (a # addrs) maddrs err =
           (maddrs[i := None], error_of (nm a))"
  using assms
  by (auto simp: returns_early_def error_of_def split: sum.splits)

lemma loop_no_return:
  assumes "\<forall>a\<in>set addrs. \<not> returns_early nm a" and "i + length addrs \<le> length maddrs"
  shows "parseAddrs_loop nm i addrs maddrs err =
           (take i maddrs @ map (\<lambda>a. entry_of (resolve_spec nm a)) addrs
              @ drop (i + length addrs) maddrs,
            if addrs = [] then err else error_of (resolve_spec nm (last addrs)))"
  using assms
proof (induction addrs arbitrary: i maddrs err)
  case Nil
  then show ?case by simp
next
  case (Cons a addrs)
  from Cons.prems have a: "\<not> returns_early nm a"
    and rest: "\<forall>x\<in>set addrs. \<not> returns_early nm x"
    and len: "Suc i + length addrs \<le> length (maddrs[i := entry_of (resolve_spec nm a)])"
    and i: "i < length maddrs"
    by simp_all
  show ?case
    unfolding loop_step [OF a] Cons.IH [OF rest len]
    using i by (simp add: take_Suc_conv_app_nth)
qed

lemma loop_first_return:
  assumes "\<forall>a\<in>set pre. \<not> returns_early nm a" and "returns_early nm a"
    and "i + length pre < length maddrs"
  shows "parseAddrs_loop nm i (pre @ a # post) maddrs err =
           (take i maddrs @ map (\<lambda>a. entry_of (resolve_spec nm a)) pre @ None
              # drop (Suc (i + length pre)) maddrs,
            error_of (nm a))"
  using assms
proof (induction pre arbitrary: i maddrs err)
  case Nil
  then show ?case
    by (simp add: loop_return [OF Nil.prems(2)] upd_conv_take_nth_drop
        del: parseAddrs_loop.simps)
next
  case (Cons b pre)
  from Cons.prems have b: "\<not> returns_early nm b"
    and rest: "\<forall>x\<in>set pre. \<not> returns_early nm x"
    and len: "Suc i + length pre < length (maddrs[i := entry_of (resolve_spec nm b)])"
    and i: "i < length maddrs"
    by simp_all
  show ?case
    using i
    by (simp add: loop_step [OF b] Cons.IH [OF rest Cons.prems(2) len] take_Suc_conv_app_nth
        del: parseAddrs_loop.simps)
qed

lemma parseAddrs_no_return:
  assumes "\<forall>a\<in>set addrs. \<not> returns_early nm a"
  shows "parseAddrs nm addrs =
           (map (\<lambda>a. entry_of (resolve_spec nm a)) addrs,
            if addrs = [] then None else error_of (resolve_spec nm (last addrs)))"
  unfolding parseAddrs_def
  by (subst loop_no_return [OF assms]) simp_all

lemma parseAddrs_first_return:
  assumes "\<forall>a\<in>set pre. \<not> returns_early nm a" and "returns_early nm a"
  shows "parseAddrs nm (pre @ a # post) =
           (map (\<lambda>a. entry_of (resolve_spec nm a)) pre @ replicate (Suc (length post)) None,
            error_of (nm a))"
  unfolding parseAddrs_def
  by (subst loop_first_return [OF assms]) (simp_all add: replicate_Suc [symmetric] del: replicate_Suc)


lemma resolve_spec_Inr:
  assumes "(\<exists>m. nm a = Inr m) \<or>
           (\<exists>host port m. SplitHostPort a = Inr (host, port) \<and>
              nm (Sprintf_ip4_tcp (if host = [] then ''127.0.0.1'' else host) port) = Inr m)"
  shows "\<exists>m. resolve_spec nm a = Inr m"
  using assms by (auto simp: resolve_spec_def split: sum.splits)

lemma resolved_not_early: "resolve_spec nm a = Inr m \<Longrightarrow> \<not> returns_early nm a"
  by (auto simp: resolve_spec_def returns_early_def split: sum.splits)

lemma resolveAll_spec_Inr:
  assumes "\<forall>a\<in>set addrs. resolve_spec nm a = Inr (f a)"
  shows "resolveAll_spec nm addrs = Inr (map f addrs)"
  using assms by (induction addrs) simp_all

text \<open>
  The error that \<open>parseAddrs\<close> returns when the loop runs to its end is the error of
  the last address alone.
\<close>

lemma parseAddrs_error_of_last:
  assumes "\<forall>a\<in>set addrs. \<not> returns_early nm a" and "addrs \<noteq> []"
  shows "snd (parseAddrs nm addrs) = error_of (resolve_spec nm (last addrs))"
  using assms(2) by (simp add: parseAddrs_no_return [OF assms(1)])

text \<open>
  An address that is neither a multiaddress nor a host:port pair ends the loop: the error
  returned is the one of its direct parse, and the slice holds the entries stored so far.
\<close>

lemma parseAddrs_returns_error:
  assumes "\<exists>a\<in>set addrs. returns_early nm a"
  shows "\<exists>pre a post err. addrs = pre @ a # post \<and> (\<forall>x\<in>set pre. \<not> returns_early nm x)
           \<and> nm a = Inl err \<and> isl (SplitHostPort a)
           \<and> parseAddrs nm addrs =
               (map (\<lambda>a. entry_of (resolve_spec nm a)) pre @ replicate (Suc (length post)) None,
                Some err)"
proof -
  from assms obtain pre a post where s: "addrs = pre @ a # post"
    and a: "returns_early nm a" and pre: "\<forall>x\<in>set pre. \<not> returns_early nm x"
    using split_list_first_prop [of addrs "returns_early nm"] by blast
  from a obtain err where e: "nm a = Inl err" and h: "isl (SplitHostPort a)"
    by (cases "nm a") (simp_all add: returns_early_def)
  have "parseAddrs nm addrs =
      (map (\<lambda>a. entry_of (resolve_spec nm a)) pre @ replicate (Suc (length post)) None, Some err)"
    unfolding s parseAddrs_first_return [OF pre a] by (simp add: e error_of_def)
  with s pre e h show ?thesis by blast
qed

subsection \<open>Runs of the parsers on concrete addresses\<close>

lemmas ma_eval = ma_NewMultiaddr_def TrimRight_def ProtocolWithName_def transcode_def
  parseIPv4_def octet_def digit_def port16_def Atoi_def Let_def

lemma NewMultiaddr_tcp_4040:
  "ma_NewMultiaddr ''/ip4/0.0.0.0/tcp/4040'' = Inr [ip4 0 0 0 0, tcp 4040]"
  by (simp add: ma_eval)

lemma NewMultiaddr_quic_4141:
  "ma_NewMultiaddr ''/ip4/0.0.0.0/udp/4141/quic'' = Inr [ip4 0 0 0 0, udp 4141, quic]"
  by (simp add: ma_eval)

lemma NewMultiaddr_port_only:
  "ma_NewMultiaddr '':9999'' = Inl (MultiaddrError '':9999'' ''must begin with /'')"
  by (simp add: ma_eval)

lemma NewMultiaddr_loopback_9999:
  "ma_NewMultiaddr ''/ip4/127.0.0.1/tcp/9999/'' = Inr [ip4 127 0 0 1, tcp 9999]"
  by (simp add: ma_eval)

lemma NewMultiaddr_localhost:
  "ma_NewMultiaddr ''localhost:9999'' =
     Inl (MultiaddrError ''localhost:9999'' ''must begin with /'')"
  by (simp add: ma_eval)

lemma NewMultiaddr_ip4_localhost:
  "ma_NewMultiaddr ''/ip4/localhost/tcp/9999/'' =
     Inl (MultiaddrError ''/ip4/localhost/tcp/9999''
            ''invalid value for protocol ip4: failed to parse ip4 addr'')"
  by (simp add: ma_eval)

lemma NewMultiaddr_bad:
  "ma_NewMultiaddr ''bad'' = Inl (MultiaddrError ''bad'' ''must begin with /'')"
  by (simp add: ma_eval)

lemma SplitHostPort_bad: "SplitHostPort ''bad'' = Inl (AddrError missingPort ''bad'')"
  by (simp add: SplitHostPort_def)

lemma SplitHostPort_port_only: "SplitHostPort '':9999'' = Inr ([], ''9999'')"
  by (simp add: SplitHostPort_def split_brackets_def)

lemma SplitHostPort_localhost: "SplitHostPort ''localhost:9999'' = Inr (''localhost'', ''9999'')"
  by (simp add: SplitHostPort_def split_brackets_def)

lemma Sprintf_loopback_9999: "Sprintf_ip4_tcp ''127.0.0.1'' ''9999'' = ''/ip4/127.0.0.1/tcp/9999/''"
  by (simp add: Sprintf_ip4_tcp_def)

lemma Sprintf_localhost_9999: "Sprintf_ip4_tcp ''localhost'' ''9999'' = ''/ip4/localhost/tcp/9999/''"
  by (simp add: Sprintf_ip4_tcp_def)

subsection \<open>What parseAddrs returns\<close>

text \<open>
  Claim C5. When every element of the list parses directly, or is a host:port pair whose
  rewritten form parses, \<open>parseAddrs\<close> returns no error and a slice without \<^verbatim>\<open>nil\<close>
  entry, as long as the input, whose i-th entry is the address resolved from the i-th
  input; it is the list of the specification's resolver.
\<close>

theorem parseAddrs_all_resolved:
  assumes "\<forall>a\<in>set addrs.
             (\<exists>m. nm a = Inr m) \<or>
             (\<exists>host port m. SplitHostPort a = Inr (host, port) \<and>
                nm (Sprintf_ip4_tcp (if host = [] then ''127.0.0.1'' else host) port) = Inr m)"
  shows "\<exists>ms. parseAddrs nm addrs = (map Some ms, None)
              \<and> length ms = length addrs
              \<and> (\<forall>i<length addrs. resolve_spec nm (addrs ! i) = Inr (ms ! i))
              \<and> resolveAll_spec nm addrs = Inr ms"
proof -
  define f where "f a = projr (resolve_spec nm a)" for a
  have r: "\<forall>a\<in>set addrs. resolve_spec nm a = Inr (f a)"
  proof
    fix a assume "a \<in> set addrs"
    with assms obtain m where "resolve_spec nm a = Inr m"
      using resolve_spec_Inr [of nm a] by blast
    then show "resolve_spec nm a = Inr (f a)" by (simp add: f_def)
  qed
  have "\<forall>a\<in>set addrs. \<not> returns_early nm a"
  proof
    fix a assume "a \<in> set addrs"
    with r have "resolve_spec nm a = Inr (f a)" by (rule bspec)
    then show "\<not> returns_early nm a" by (rule resolved_not_early)
  qed
  then have p: "parseAddrs nm addrs =
      (map (\<lambda>a. entry_of (resolve_spec nm a)) addrs,
       if addrs = [] then None else error_of (resolve_spec nm (last addrs)))"
    by (rule parseAddrs_no_return)
  have e: "map (\<lambda>a. entry_of (resolve_spec nm a)) addrs = map Some (map f addrs)"
    using r by (simp add: entry_of_def)
  have l: "addrs \<noteq> [] \<Longrightarrow> error_of (resolve_spec nm (last addrs)) = None"
    using r by (simp add: error_of_def)
  have "parseAddrs nm addrs = (map Some (map f addrs), None)"
    unfolding p e using l by simp
  moreover have "\<forall>i<length addrs. resolve_spec nm (addrs ! i) = Inr (map f addrs ! i)"
    using r by simp
  moreover have "resolveAll_spec nm addrs = Inr (map f addrs)"
    using r by (rule resolveAll_spec_Inr)
  ultimately show ?thesis by (intro exI [of _ "map f addrs"]) simp
qed

text \<open>The default TCP listener followed by the shorthand \<^verbatim>\<open>:9999\<close>.\<close>

theorem parseAddrs_all_resolved_witness:
  "parseAddrs ma_NewMultiaddr [''/ip4/0.0.0.0/tcp/4040'', '':9999''] =
     ([Some [ip4 0 0 0 0, tcp 4040], Some [ip4 127 0 0 1, tcp 9999]], None)"
proof -
  have h: "\<forall>a\<in>set [''/ip4/0.0.0.0/tcp/4040'', '':9999''].
             (\<exists>m. ma_NewMultiaddr a = Inr m) \<or>
             (\<exists>host port m. SplitHostPort a = Inr (host, port) \<and>
                ma_NewMultiaddr (Sprintf_ip4_tcp (if host = [] then ''127.0.0.1'' else host) port)
                  = Inr m)"
    by (simp add: NewMultiaddr_tcp_4040 SplitHostPort_port_only Sprintf_loopback_9999
        NewMultiaddr_loopback_9999)
  from parseAddrs_all_resolved [OF h] obtain ms where
    p: "parseAddrs ma_NewMultiaddr [''/ip4/0.0.0.0/tcp/4040'', '':9999''] = (map Some ms, None)"
    and n: "length ms = 2"
    and r: "\<forall>i<2. resolve_spec ma_NewMultiaddr ([''/ip4/0.0.0.0/tcp/4040'', '':9999''] ! i)
                   = Inr (ms ! i)"
    by auto
  from r have "resolve_spec ma_NewMultiaddr ''/ip4/0.0.0.0/tcp/4040'' = Inr (ms ! 0)"
    and "resolve_spec ma_NewMultiaddr '':9999'' = Inr (ms ! 1)"
    by (auto dest: spec [of _ 0] spec [of _ 1])
  then have "ms ! 0 = [ip4 0 0 0 0, tcp 4040]" and "ms ! 1 = [ip4 127 0 0 1, tcp 9999]"
    by (simp_all add: resolve_spec_def NewMultiaddr_tcp_4040 NewMultiaddr_port_only
        SplitHostPort_port_only Sprintf_loopback_9999 NewMultiaddr_loopback_9999)
  with n have "ms = [[ip4 0 0 0 0, tcp 4040], [ip4 127 0 0 1, tcp 9999]]"
    by (cases ms; cases "tl ms") auto
  with p show ?thesis by simp
qed





text \<open>
  Claim C1. The claim fails on the code: \<^verbatim>\<open>localhost:9999\<close> is no multiaddress, and
  its rewritten form \<^verbatim>\<open>/ip4/localhost/tcp/9999/\<close> is none either, so both attempts of
  the resolver fail and the specification's resolver fails; but the next iteration
  overwrites \<open>err\<close>, and \<open>parseAddrs\<close> returns no error and a slice whose first entry
  is \<^verbatim>\<open>nil\<close>, which \<^verbatim>\<open>serve.Exec\<close> takes as its listeners. With the two addresses
  in the other order the error is returned, and so it is, at once, for a text that is no
  host:port pair either; the slice returned with the error holds the entries stored so far.
\<close>

theorem parseAddrs_error_overwritten:
  "parseAddrs ma_NewMultiaddr [''localhost:9999'', ''/ip4/0.0.0.0/tcp/4040''] =
     ([None, Some [ip4 0 0 0 0, tcp 4040]], None)
   \<and> serve_listeners ma_NewMultiaddr ''localhost:9999,/ip4/0.0.0.0/tcp/4040'' =
     Inr [None, Some [ip4 0 0 0 0, tcp 4040]]
   \<and> resolveAll_spec ma_NewMultiaddr [''localhost:9999'', ''/ip4/0.0.0.0/tcp/4040''] =
     Inl (MultiaddrError ''/ip4/localhost/tcp/9999''
            ''invalid value for protocol ip4: failed to parse ip4 addr'')
   \<and> parseAddrs ma_NewMultiaddr [''/ip4/0.0.0.0/tcp/4040'', ''localhost:9999''] =
     ([Some [ip4 0 0 0 0, tcp 4040], None],
      Some (MultiaddrError ''/ip4/localhost/tcp/9999''
              ''invalid value for protocol ip4: failed to parse ip4 addr''))
   \<and> parseAddrs ma_NewMultiaddr [''/ip4/0.0.0.0/tcp/4040'', ''bad'', ''/ip4/0.0.0.0/tcp/4040''] =
     ([Some [ip4 0 0 0 0, tcp 4040], None, None],
      Some (MultiaddrError ''bad'' ''must begin with /''))"
proof -
  have n: "parseAddrs ma_NewMultiaddr
             [''/ip4/0.0.0.0/tcp/4040'', ''bad'', ''/ip4/0.0.0.0/tcp/4040''] =
     ([Some [ip4 0 0 0 0, tcp 4040], None, None],
      Some (MultiaddrError ''bad'' ''must begin with /''))"
    by (simp add: parseAddrs_def NewMultiaddr_bad SplitHostPort_bad NewMultiaddr_tcp_4040)
  have s: "Split ''localhost:9999,/ip4/0.0.0.0/tcp/4040'' (CHR '','') =
             [''localhost:9999'', ''/ip4/0.0.0.0/tcp/4040'']"
    by simp
  have p: "parseAddrs ma_NewMultiaddr [''localhost:9999'', ''/ip4/0.0.0.0/tcp/4040''] =
             ([None, Some [ip4 0 0 0 0, tcp 4040]], None)"
    by (simp add: parseAddrs_def NewMultiaddr_localhost SplitHostPort_localhost
        Sprintf_localhost_9999 NewMultiaddr_ip4_localhost NewMultiaddr_tcp_4040)
  have q: "parseAddrs ma_NewMultiaddr [''/ip4/0.0.0.0/tcp/4040'', ''localhost:9999''] =
     ([Some [ip4 0 0 0 0, tcp 4040], None],
      Some (MultiaddrError ''/ip4/localhost/tcp/9999''
              ''invalid value for protocol ip4: failed to parse ip4 addr''))"
    by (simp add: parseAddrs_def NewMultiaddr_localhost SplitHostPort_localhost
        Sprintf_localhost_9999 NewMultiaddr_ip4_localhost NewMultiaddr_tcp_4040)
  have r: "resolveAll_spec ma_NewMultiaddr [''localhost:9999'', ''/ip4/0.0.0.0/tcp/4040''] =
     Inl (MultiaddrError ''/ip4/localhost/tcp/9999''
            ''invalid value for protocol ip4: failed to parse ip4 addr'')"
    by (simp add: resolve_spec_def NewMultiaddr_localhost SplitHostPort_localhost
        Sprintf_localhost_9999 NewMultiaddr_ip4_localhost)
  show ?thesis
    using p q r n by (simp only: serve_listeners_def s) simp
qed

subsection \<open>The default listeners\<close>

text \<open>
  Claim C8. The default of the \<^verbatim>\<open>-l\<close> flag splits into two addresses, and they
  resolve to a TCP address and a QUIC-over-UDP address, both over IPv4 on \<^verbatim>\<open>0.0.0.0\<close>,
  with the ports 4040 and 4141.
\<close>

theorem default_listeners:
  "Split serveFlagsListeners_default (CHR '','') =
     [''/ip4/0.0.0.0/tcp/4040'', ''/ip4/0.0.0.0/udp/4141/quic'']
   \<and> serve_listeners ma_NewMultiaddr serveFlagsListeners_default =
       Inr [Some [ip4 0 0 0 0, tcp 4040], Some [ip4 0 0 0 0, udp 4141, quic]]"
proof -
  have s: "Split serveFlagsListeners_default (CHR '','') =
     [''/ip4/0.0.0.0/tcp/4040'', ''/ip4/0.0.0.0/udp/4141/quic'']"
    by (simp add: serveFlagsListeners_default_def)
  show ?thesis
    by (simp only: serve_listeners_def s)
      (simp add: parseAddrs_def NewMultiaddr_tcp_4040 NewMultiaddr_quic_4141)
qed

subsection \<open>Base64: decoding inverts encoding\<close>

lemma length_encodeStd: "length encodeStd = 64"
  by (simp add: encodeStd_def)

lemma distinct_encodeStd: "distinct encodeStd"
  by (simp add: encodeStd_def)

lemma decodeMap_encodeStd: "i < 64 \<Longrightarrow> decodeMap (encodeStd ! i) = Some i"
  unfolding decodeMap_def
  using map_of_zip_nth [of encodeStd "[0..<64]" i]
  by (simp add: length_encodeStd distinct_encodeStd)

lemma unat_byte: "unat (b :: byte) < 256"
  using unsigned_less [of b] by simp

lemma byte_of_nat: "n mod 256 = unat (b :: byte) \<Longrightarrow> of_nat n = b"
  by (simp add: word_unat_eq_iff unat_of_nat)

lemma div_pack: "r < n \<Longrightarrow> (a * n + r) div n = (a::nat)"
  by simp

lemma mod_pack: "r < n \<Longrightarrow> (a * n + r) mod n = (r::nat)"
  by simp

lemma combine_sextets:
  fixes v :: nat
  assumes "v = A * 64 + m0" "A = B * 64 + m1" "B = C * 64 + m2"
  shows "C * 262144 + m2 * 4096 + m1 * 64 + m0 = v"
  using assms by simp

lemma sextets:
  fixes v :: nat
  assumes "v < 16777216"
  shows "v div 262144 mod 64 * 262144 + v div 4096 mod 64 * 4096 + v div 64 mod 64 * 64
           + v mod 64 = v"
proof -
  have q2: "v div 4096 = v div 64 div 64" by (simp add: div_mult2_eq)
  have q3: "v div 262144 = v div 4096 div 64" by (simp add: div_mult2_eq)
  have e1: "v = v div 64 * 64 + v mod 64" by simp
  have e2: "v div 64 = v div 4096 * 64 + v div 64 mod 64" unfolding q2 by simp
  have e3: "v div 4096 = v div 262144 * 64 + v div 4096 mod 64" unfolding q3 by simp
  have "v div 262144 < 64" using assms by (simp add: less_mult_imp_div_less)
  then have s: "v div 262144 mod 64 = v div 262144" by simp
  show ?thesis unfolding s by (rule combine_sextets [OF e1 e2 e3])
qed

lemma pack3:
  fixes a b c :: nat
  assumes "a < 256" "b < 256" "c < 256"
  shows "a * 65536 + b * 256 + c < 16777216"
    and "(a * 65536 + b * 256 + c) div 65536 = a"
    and "(a * 65536 + b * 256 + c) div 256 mod 256 = b"
    and "(a * 65536 + b * 256 + c) mod 256 = c"
proof -
  show "a * 65536 + b * 256 + c < 16777216" using assms by simp
  have r: "b * 256 + c < 65536" using assms by simp
  have "(a * 65536 + (b * 256 + c)) div 65536 = a" by (rule div_pack [OF r])
  then show "(a * 65536 + b * 256 + c) div 65536 = a" by (simp add: add.assoc)
  have e: "a * 65536 + b * 256 + c = (a * 256 + b) * 256 + c" by simp
  have "(a * 65536 + b * 256 + c) div 256 = a * 256 + b"
    unfolding e by (rule div_pack [OF assms(3)])
  then show "(a * 65536 + b * 256 + c) div 256 mod 256 = b"
    using mod_pack [OF assms(2), of a] by simp
  show "(a * 65536 + b * 256 + c) mod 256 = c"
    unfolding e by (rule mod_pack [OF assms(3)])
qed


lemma quantum_bytes_val:
  "quantum_bytes [a, b, c, d] =
     (let val = a * 262144 + b * 4096 + c * 64 + d
      in [of_nat (val div 65536), of_nat (val div 256), of_nat val])"
  "quantum_bytes [a, b, c] =
     (let val = a * 262144 + b * 4096 + c * 64 + 0
      in [of_nat (val div 65536), of_nat (val div 256)])"
  "quantum_bytes [a, b] =
     (let val = a * 262144 + b * 4096 + 0 * 64 + 0
      in [of_nat (val div 65536)])"
  by (simp_all add: quantum_bytes_def Let_def del: of_nat_add of_nat_mult)

lemma quantum4:
  assumes "v < 16777216"
  shows "quantum_bytes [v div 262144 mod 64, v div 4096 mod 64, v div 64 mod 64, v mod 64] =
           [of_nat (v div 65536), of_nat (v div 256), of_nat v]"
  by (simp only: quantum_bytes_val sextets [OF assms] Let_def)

lemma quantum3:
  assumes "v < 16777216" "v mod 64 = 0"
  shows "quantum_bytes [v div 262144 mod 64, v div 4096 mod 64, v div 64 mod 64] =
           [of_nat (v div 65536), of_nat (v div 256)]"
  using sextets [OF assms(1)] by (simp only: quantum_bytes_val assms(2) Let_def)

lemma quantum2:
  assumes "v < 16777216" "v mod 64 = 0" "v div 64 mod 64 = 0"
  shows "quantum_bytes [v div 262144 mod 64, v div 4096 mod 64] = [of_nat (v div 65536)]"
  using sextets [OF assms(1)] by (simp only: quantum_bytes_val assms(2,3) Let_def)

lemma decodeMap_pad: "decodeMap (CHR ''='') = None"
  unfolding decodeMap_def
  using map_of_zip_is_None [of encodeStd "[0..<64]" "CHR ''=''"]
  by (simp add: length_encodeStd) (simp add: encodeStd_def)

lemma not_newline_pad: "\<not> newline (CHR ''='')"
  by (simp add: newline_def)

lemma decodeMap_newline: "newline c \<Longrightarrow> decodeMap c = None"
  unfolding decodeMap_def
  using map_of_zip_is_None [of encodeStd "[0..<64]" c]
  by (simp add: length_encodeStd) (auto simp: encodeStd_def newline_def)

lemma Decode_newlines: "\<forall>c\<in>set ws. newline c \<Longrightarrow> Decode [] si ws = Inr []"
  by (induction ws arbitrary: si) (simp_all add: decodeMap_newline)

lemma Decode_quantum4:
  assumes "i0 < 64" "i1 < 64" "i2 < 64" "i3 < 64"
  shows "Decode [] si (encodeStd ! i0 # encodeStd ! i1 # encodeStd ! i2 # encodeStd ! i3 # src) =
           (case Decode [] (Suc (Suc (Suc (Suc si)))) src of
              Inl err \<Rightarrow> Inl err
            | Inr bs \<Rightarrow> Inr (quantum_bytes [i0, i1, i2, i3] @ bs))"
  using assms by (simp add: decodeMap_encodeStd split: sum.splits)

lemma Decode_quantum3:
  assumes "i0 < 64" "i1 < 64" "i2 < 64" and "\<forall>c\<in>set ws. newline c"
  shows "Decode [] si (encodeStd ! i0 # encodeStd ! i1 # encodeStd ! i2 # CHR ''='' # ws) =
           Inr (quantum_bytes [i0, i1, i2])"
proof -
  have "dropWhile newline ws = []" using assms(4) by simp
  then show ?thesis
    using assms(1,2,3)
    by (simp add: decodeMap_encodeStd decodeMap_pad not_newline_pad padding_def trailing_def)
qed

lemma Decode_quantum2:
  assumes "i0 < 64" "i1 < 64" and "\<forall>c\<in>set ws. newline c"
  shows "Decode [] si (encodeStd ! i0 # encodeStd ! i1 # CHR ''='' # CHR ''='' # ws) =
           Inr (quantum_bytes [i0, i1])"
proof -
  have "dropWhile newline ws = []" using assms(3) by simp
  then show ?thesis
    using assms(1,2)
    by (simp add: decodeMap_encodeStd decodeMap_pad not_newline_pad padding_def trailing_def)
qed

lemma bytes3:
  fixes b0 b1 b2 :: byte
  defines "v \<equiv> unat b0 * 65536 + unat b1 * 256 + unat b2"
  shows "v < 16777216" and "of_nat (v div 65536) = b0" and "of_nat (v div 256) = b1"
    and "of_nat v = b2"
proof -
  note p = pack3 [OF unat_byte unat_byte unat_byte, of b0 b1 b2, folded v_def]
  show "v < 16777216" by (rule p(1))
  show "of_nat (v div 65536) = b0" by (simp add: p(2))
  show "of_nat (v div 256) = b1" by (rule byte_of_nat) (rule p(3))
  show "of_nat v = b2" by (rule byte_of_nat) (rule p(4))
qed

lemma Decode_EncodeToString:
  assumes ws: "\<forall>c\<in>set ws. newline c"
  shows "Decode [] si (EncodeToString bs @ ws) = Inr bs"
proof (induction bs arbitrary: si rule: EncodeToString.induct)
  case (1 b0 b1 b2 src)
  define v where "v = unat b0 * 65536 + unat b1 * 256 + unat b2"
  have e: "EncodeToString (b0 # b1 # b2 # src) @ ws =
             encodeStd ! (v div 262144 mod 64) # encodeStd ! (v div 4096 mod 64) #
             encodeStd ! (v div 64 mod 64) # encodeStd ! (v mod 64) # (EncodeToString src @ ws)"
    by (simp add: v_def Let_def)
  note b = bytes3 [of b0 b1 b2, folded v_def]
  show ?case
    unfolding e
    by (simp add: Decode_quantum4 "1.IH" quantum4 [OF b(1)] b(2,3,4) del: Decode.simps)
next
  case (2 b0 b1)
  define v where "v = unat b0 * 65536 + unat b1 * 256 + unat (0 :: byte)"
  have v': "v = unat b0 * 65536 + unat b1 * 256" by (simp add: v_def)
  have e: "EncodeToString [b0, b1] @ ws =
             encodeStd ! (v div 262144 mod 64) # encodeStd ! (v div 4096 mod 64) #
             encodeStd ! (v div 64 mod 64) # CHR ''='' # ws"
    by (simp add: v' Let_def)
  note b = bytes3 [of b0 b1 0, folded v_def]
  have "v = (unat b0 * 1024 + unat b1 * 4) * 64" by (simp add: v')
  then have m: "v mod 64 = 0" by simp
  show ?case
    unfolding e
    by (simp add: Decode_quantum3 [OF _ _ _ ws] quantum3 [OF b(1) m] b(2,3) del: Decode.simps)
next
  case (3 b0)
  define v where "v = unat b0 * 65536 + unat (0 :: byte) * 256 + unat (0 :: byte)"
  have v': "v = unat b0 * 65536" by (simp add: v_def)
  have e: "EncodeToString [b0] @ ws =
             encodeStd ! (v div 262144 mod 64) # encodeStd ! (v div 4096 mod 64) #
             CHR ''='' # CHR ''='' # ws"
    by (simp add: v' Let_def)
  note b = bytes3 [of b0 0 0, folded v_def]
  have "v = (unat b0 * 1024) * 64" by (simp add: v')
  then have m: "v mod 64 = 0" by simp
  have "v div 64 = (unat b0 * 16) * 64" by (simp add: v')
  then have m': "v div 64 mod 64 = 0" by simp
  show ?case
    unfolding e
    by (simp add: Decode_quantum2 [OF _ _ ws] quantum2 [OF b(1) m m'] b(2) del: Decode.simps)
next
  case 4
  show ?case using ws by (simp add: Decode_newlines del: Decode.simps)
qed

text \<open>
  Decoding inverts encoding, also when line ends follow the encoded text.
\<close>

lemma DecodeString_EncodeToString: "DecodeString (EncodeToString bs) = Inr bs"
  unfolding DecodeString_def using Decode_EncodeToString [of "[]" 0 bs] by simp




subsection \<open>Loading and generating the key\<close>

lemma load_eq:
  "load U pk =
     (case DecodeString pk of
        Inl err \<Rightarrow> Inl (Wrapped TODO err)
      | Inr kBytes \<Rightarrow> (case U kBytes of Inl err \<Rightarrow> Inl (Wrapped TODO err) | Inr priv \<Rightarrow> Inr priv))"
  by (simp add: load_def load_calls_def split: sum.splits)








text \<open>A text that is not base64, and one that is but holds no key.\<close>

lemma DecodeString_bang: "DecodeString ''!'' = Inl (CorruptInputError 0)"
proof -
  have "decodeMap (CHR ''!'') = None"
    unfolding decodeMap_def
    using map_of_zip_is_None [of encodeStd "[0..<64]" "CHR ''!''"]
    by (simp add: length_encodeStd) (simp add: encodeStd_def)
  then show ?thesis by (simp add: DecodeString_def newline_def)
qed

lemma Encode_zeros: "EncodeToString [0, 0, 0] = ''AAAA''"
  by (simp add: encodeStd_def)

lemma DecodeString_zeros: "DecodeString ''AAAA'' = Inr [0, 0, 0]"
  using DecodeString_EncodeToString [of "[0, 0, 0]"] by (simp only: Encode_zeros)

lemma Unmarshal_zeros: "crypto_UnmarshalPrivateKey [0, 0, 0] = Inl (External ''bad key'')"
  by (simp add: crypto_UnmarshalPrivateKey_def)

text \<open>
  Claim C4, as the code has it. \<open>load\<close> fails when the text is not base64, with the
  error of the decoder, and when the decoded bytes are no key, with the error of the key
  library; it returns a key only when both steps succeed, and that key is the one the
  library read from the decoded bytes. Every error it returns is wrapped with the code
  \<^verbatim>\<open>TODO\<close>: the two failures differ in the wrapped cause, not in the code.
\<close>

theorem load_failures:
  "(\<forall>err. DecodeString pk = Inl err \<longrightarrow> load U pk = Inl (Wrapped TODO err))
   \<and> (\<forall>kBytes err. DecodeString pk = Inr kBytes \<and> U kBytes = Inl err
         \<longrightarrow> load U pk = Inl (Wrapped TODO err))
   \<and> (\<forall>k. load U pk = Inr k \<longrightarrow> (\<exists>kBytes. DecodeString pk = Inr kBytes \<and> U kBytes = Inr k))
   \<and> (\<forall>e. load U pk = Inl e \<longrightarrow> code_of e = Some TODO)"
  by (auto simp: load_eq split: sum.splits)

theorem load_failures_witness:
  "load crypto_UnmarshalPrivateKey ''!'' = Inl (Wrapped TODO (CorruptInputError 0))
   \<and> load crypto_UnmarshalPrivateKey ''AAAA'' = Inl (Wrapped TODO (External ''bad key''))"
proof
  show "load crypto_UnmarshalPrivateKey ''!'' = Inl (Wrapped TODO (CorruptInputError 0))"
    using load_failures [of "''!''" crypto_UnmarshalPrivateKey] DecodeString_bang by blast
  show "load crypto_UnmarshalPrivateKey ''AAAA'' = Inl (Wrapped TODO (External ''bad key''))"
    using load_failures [of "''AAAA''" crypto_UnmarshalPrivateKey] DecodeString_zeros
      Unmarshal_zeros by blast
qed

text \<open>
  Claim C4 as stated fails: the text \<^verbatim>\<open>!\<close> is not base64 and \<^verbatim>\<open>AAAA\<close> decodes to
  three bytes that are no key, and the two errors carry the same code, which is neither
  \<^verbatim>\<open>DecodeError\<close> nor \<^verbatim>\<open>KeyFormatError\<close>.
\<close>

theorem load_failures_same_code:
  "load crypto_UnmarshalPrivateKey ''!'' = Inl (Wrapped TODO (CorruptInputError 0))
   \<and> load crypto_UnmarshalPrivateKey ''AAAA'' = Inl (Wrapped TODO (External ''bad key''))
   \<and> code_of (Wrapped TODO (CorruptInputError 0)) = code_of (Wrapped TODO (External ''bad key''))
   \<and> code_of (Wrapped TODO (CorruptInputError 0)) \<noteq> Some DecodeError
   \<and> code_of (Wrapped TODO (External ''bad key'')) \<noteq> Some KeyFormatError"
  by (simp add: load_eq DecodeString_bang DecodeString_zeros Unmarshal_zeros)

text \<open>
  Claim C7. With a non-empty \<^verbatim>\<open>-pk\<close> the identity block of \<^verbatim>\<open>serve.Exec\<close> is the
  branch of \<open>load\<close>: its first call decodes the text, the generator is not called and
  its outcome does not matter. With an empty \<^verbatim>\<open>-pk\<close> (the default) the only call is
  the one of the generator, and the functions that read a key do not matter. The block
  has no argument besides the flag and the two libraries: nothing is kept between two runs.
\<close>

theorem serve_identity_one_path:
  "(serveFlagsPK \<noteq> [] \<longrightarrow>
      serve_identity U G serveFlagsPK = load_calls U serveFlagsPK
      \<and> hd (fst (serve_identity U G serveFlagsPK)) = Call_DecodeString serveFlagsPK
      \<and> Call_GenerateKeyPairWithReader \<notin> set (fst (serve_identity U G serveFlagsPK))
      \<and> serve_identity U G' serveFlagsPK = serve_identity U G serveFlagsPK)
   \<and> (serveFlagsPK = [] \<longrightarrow>
      serve_identity U G serveFlagsPK = generate_calls G
      \<and> fst (serve_identity U G serveFlagsPK) = [Call_GenerateKeyPairWithReader]
      \<and> serve_identity U' G serveFlagsPK = serve_identity U G serveFlagsPK)"
  by (auto simp: serve_identity_def load_calls_def generate_calls_def split: sum.splits)

text \<open>The text \<^verbatim>\<open>AAAA\<close> with a generator that would fail, and no text.\<close>

theorem serve_identity_one_path_witness:
  "fst (serve_identity crypto_UnmarshalPrivateKey (Inl (External ''no entropy'')) ''AAAA'') =
     [Call_DecodeString ''AAAA'', Call_UnmarshalPrivateKey [0, 0, 0]]
   \<and> serve_identity crypto_UnmarshalPrivateKey (Inr (Secp256k1PrivateKey (replicate 32 7))) [] =
     ([Call_GenerateKeyPairWithReader], Inr (Secp256k1PrivateKey (replicate 32 7)))
   \<and> serve_identity crypto_UnmarshalPrivateKey (Inr (Secp256k1PrivateKey (replicate 32 7)))
       serveFlagsPK_default =
     ([Call_GenerateKeyPairWithReader], Inr (Secp256k1PrivateKey (replicate 32 7)))"
proof (intro conjI)
  have "serve_identity crypto_UnmarshalPrivateKey (Inl (External ''no entropy'')) ''AAAA'' =
          load_calls crypto_UnmarshalPrivateKey ''AAAA''"
    using serve_identity_one_path [of "''AAAA''" crypto_UnmarshalPrivateKey
        "Inl (External ''no entropy'')"]
    by simp
  then show "fst (serve_identity crypto_UnmarshalPrivateKey (Inl (External ''no entropy'')) ''AAAA'')
      = [Call_DecodeString ''AAAA'', Call_UnmarshalPrivateKey [0, 0, 0]]"
    by (simp add: load_calls_def DecodeString_zeros Unmarshal_zeros)
  have "serve_identity crypto_UnmarshalPrivateKey (Inr (Secp256k1PrivateKey (replicate 32 7))) [] =
          generate_calls (Inr (Secp256k1PrivateKey (replicate 32 7)))"
    using serve_identity_one_path [of "[]" crypto_UnmarshalPrivateKey
        "Inr (Secp256k1PrivateKey (replicate 32 7))"]
    by simp
  then show g: "serve_identity crypto_UnmarshalPrivateKey
      (Inr (Secp256k1PrivateKey (replicate 32 7))) [] =
     ([Call_GenerateKeyPairWithReader], Inr (Secp256k1PrivateKey (replicate 32 7)))"
    by (simp add: generate_calls_def)
  then show "serve_identity crypto_UnmarshalPrivateKey (Inr (Secp256k1PrivateKey (replicate 32 7)))
       serveFlagsPK_default =
     ([Call_GenerateKeyPairWithReader], Inr (Secp256k1PrivateKey (replicate 32 7)))"
    by (simp add: serveFlagsPK_default_def)
qed

subsection \<open>The exit of the process\<close>

lemma main_exit_Return_iff:
  "main_exit r = Return \<longleftrightarrow> r = None \<or> r = Some Canceled"
  by (simp add: main_exit_def split: option.splits)

lemma main_exit_Fatal:
  "err \<noteq> Canceled \<Longrightarrow> main_exit (Some err) = Fatal err"
  by (simp add: main_exit_def)

lemma serve_wait_never_Canceled: "serve_wait ctx_Err \<noteq> Some Canceled"
  by (simp add: serve_wait_def split: option.splits)

lemma SignalHandler_received: "SignalHandler_execute (Signal_received sig) \<noteq> Some Canceled"
  by (simp add: SignalHandler_execute_def)

text \<open>
  The runs that end without \<^verbatim>\<open>log.Fatal\<close>: the command returns first and without
  error (as \<^verbatim>\<open>genkey\<close> does), or the first result is \<^verbatim>\<open>context.Canceled\<close> itself.
\<close>

lemma command_returns_first:
  "main_exit (Run [None, SignalHandler_execute (Context_done Canceled)]) = Return"
  by (simp add: main_exit_def Run_def)

lemma first_result_decides:
  "main_exit (Run (first # others)) = Return \<longleftrightarrow> first = None \<or> first = Some Canceled"
  by (simp add: Run_def main_exit_Return_iff)

text \<open>
  Claim C2. The claim fails on the code. \<open>main\<close> takes for the clean outcome only the
  value \<^verbatim>\<open>context.Canceled\<close> itself. When the interrupt signal arrives, the first actor
  to return is the signal handler, with \<^verbatim>\<open>run.SignalError\<close>; the command, cancelled in
  turn, returns \<^verbatim>\<open>context.Canceled\<close> wrapped with a code. Neither value is
  \<^verbatim>\<open>context.Canceled\<close>, so the process ends with \<^verbatim>\<open>log.Fatal\<close>; so it would if the
  error of the cancelled command were the first.
\<close>

theorem interrupt_is_fatal:
  "main_exit (Run [SignalHandler_execute (Signal_received Interrupt), serve_wait (Some Canceled)])
     = Fatal (SignalError Interrupt)
   \<and> main_exit (Run [serve_wait (Some Canceled), SignalHandler_execute (Context_done Canceled)])
     = Fatal (Wrapped TODO Canceled)"
  by (simp add: main_exit_def Run_def SignalHandler_execute_def serve_wait_def)

end
